theory Spec2Isabelle
  imports Main
begin

section \<open>JSON text and values\<close>

text \<open>
  The settings code keeps every slot as JSON text in the browser's local storage and
  turns it into a value with \<^verbatim>\<open>JSON.parse\<close>, and back with \<^verbatim>\<open>JSON.stringify\<close>.
  A value is the syntax tree of its text. The program never computes with the leaves,
  so a number is kept as its literal and a string as the body of its literal (escape
  sequences are checked, not decoded); the members of an object are kept in the order
  they are written. Text is a list of bytes (UTF-8).
\<close>

datatype json =
    JNull
  | JBool bool
  | JNum string
  | JStr string
  | JArr "json list"
  | JObj "(string \<times> json) list"

text \<open>A JavaScript object literal with string keys: the properties in insertion order.\<close>

type_synonym obj = "(string \<times> json) list"

datatype js_error =
    SyntaxError   \<comment> \<open>thrown by \<^verbatim>\<open>JSON.parse\<close> on text that is not JSON\<close>
  | TypeError     \<comment> \<open>thrown by a property read on \<^verbatim>\<open>null\<close>\<close>
  | Unmodelled    \<comment> \<open>not an exception: the runtime goes on where this model stops\<close>

subsection \<open>Tokens\<close>

datatype token =
    LBrace | RBrace | LBracket | RBracket | Colon | Comma
  | StringTok string | NumberTok string | TrueTok | FalseTok | NullTok

datatype num_state =
    AfterMinus | LeadingZero | IntDigits | AfterPoint | FracDigits
  | AfterE | AfterExpSign | ExpDigits

datatype lex_mode =
    Between
  | InString string
  | InEscape string
  | InUnicode string nat
  | InNumber num_state string
  | InWord string token

definition is_digit :: "char \<Rightarrow> bool" where
  "is_digit c = (c \<in> set ''0123456789'')"

definition is_hex :: "char \<Rightarrow> bool" where
  "is_hex c = (c \<in> set ''0123456789abcdefABCDEF'')"

definition is_ws :: "char \<Rightarrow> bool" where
  "is_ws c = (c \<in> set [CHR 0x20, CHR 0x09, CHR 0x0A, CHR 0x0D])"

definition is_exp_mark :: "char \<Rightarrow> bool" where
  "is_exp_mark c = (c = CHR ''e'' \<or> c = CHR ''E'')"

fun num_accepting :: "num_state \<Rightarrow> bool" where
  "num_accepting LeadingZero = True"
| "num_accepting IntDigits = True"
| "num_accepting FracDigits = True"
| "num_accepting ExpDigits = True"
| "num_accepting _ = False"

text \<open>The number grammar: \<^verbatim>\<open>-? (0 | [1-9][0-9]*) (. [0-9]+)? ([eE] [+-]? [0-9]+)?\<close>\<close>

fun num_step :: "num_state \<Rightarrow> char \<Rightarrow> num_state option" where
  "num_step AfterMinus c =
     (if c = CHR ''0'' then Some LeadingZero
      else if is_digit c then Some IntDigits else None)"
| "num_step LeadingZero c =
     (if c = CHR ''.'' then Some AfterPoint
      else if is_exp_mark c then Some AfterE else None)"
| "num_step IntDigits c =
     (if is_digit c then Some IntDigits
      else if c = CHR ''.'' then Some AfterPoint
      else if is_exp_mark c then Some AfterE else None)"
| "num_step AfterPoint c = (if is_digit c then Some FracDigits else None)"
| "num_step FracDigits c =
     (if is_digit c then Some FracDigits
      else if is_exp_mark c then Some AfterE else None)"
| "num_step AfterE c =
     (if c = CHR ''+'' \<or> c = CHR ''-'' then Some AfterExpSign
      else if is_digit c then Some ExpDigits else None)"
| "num_step AfterExpSign c = (if is_digit c then Some ExpDigits else None)"
| "num_step ExpDigits c = (if is_digit c then Some ExpDigits else None)"

text \<open>A character met between two tokens.\<close>

definition between_step :: "char \<Rightarrow> (lex_mode \<times> token list) option" where
  "between_step c =
     (if is_ws c then Some (Between, [])
      else if c = CHR ''{'' then Some (Between, [LBrace])
      else if c = CHR ''}'' then Some (Between, [RBrace])
      else if c = CHR ''['' then Some (Between, [LBracket])
      else if c = CHR '']'' then Some (Between, [RBracket])
      else if c = CHR '':'' then Some (Between, [Colon])
      else if c = CHR '','' then Some (Between, [Comma])
      else if c = CHR 0x22 then Some (InString [], [])
      else if c = CHR ''-'' then Some (InNumber AfterMinus [c], [])
      else if c = CHR ''0'' then Some (InNumber LeadingZero [c], [])
      else if is_digit c then Some (InNumber IntDigits [c], [])
      else if c = CHR ''t'' then Some (InWord ''rue'' TrueTok, [])
      else if c = CHR ''f'' then Some (InWord ''alse'' FalseTok, [])
      else if c = CHR ''n'' then Some (InWord ''ull'' NullTok, [])
      else None)"

fun lex_step :: "lex_mode \<Rightarrow> char \<Rightarrow> (lex_mode \<times> token list) option" where
  "lex_step Between c = between_step c"
| "lex_step (InString acc) c =
     (if c = CHR 0x22 then Some (Between, [StringTok acc])
      else if c = CHR 0x5C then Some (InEscape (acc @ [c]), [])
      else if (of_char c :: nat) < 32 then None
      else Some (InString (acc @ [c]), []))"
| "lex_step (InEscape acc) c =
     (if c \<in> set [CHR 0x22, CHR 0x5C, CHR ''/'', CHR ''b'', CHR ''f'', CHR ''n'', CHR ''r'', CHR ''t'']
      then Some (InString (acc @ [c]), [])
      else if c = CHR ''u'' then Some (InUnicode (acc @ [c]) 4, [])
      else None)"
| "lex_step (InUnicode acc n) c =
     (if is_hex c
      then (if n \<le> 1 then Some (InString (acc @ [c]), [])
            else Some (InUnicode (acc @ [c]) (n - 1), []))
      else None)"
| "lex_step (InNumber st acc) c =
     (case num_step st c of
        Some st' \<Rightarrow> Some (InNumber st' (acc @ [c]), [])
      | None \<Rightarrow>
          (if num_accepting st
           then (case between_step c of
                   Some (m, ts) \<Rightarrow> Some (m, NumberTok acc # ts)
                 | None \<Rightarrow> None)
           else None))"
| "lex_step (InWord [] tok) c = None"
| "lex_step (InWord (e # es) tok) c =
     (if c = e then (if es = [] then Some (Between, [tok]) else Some (InWord es tok, []))
      else None)"

fun lex_end :: "lex_mode \<Rightarrow> token list option" where
  "lex_end Between = Some []"
| "lex_end (InNumber st acc) = (if num_accepting st then Some [NumberTok acc] else None)"
| "lex_end _ = None"

fun tokenize :: "lex_mode \<Rightarrow> string \<Rightarrow> token list option" where
  "tokenize m [] = lex_end m"
| "tokenize m (c # cs) =
     (case lex_step m c of
        None \<Rightarrow> None
      | Some (m', ts) \<Rightarrow>
          (case tokenize m' cs of None \<Rightarrow> None | Some rest \<Rightarrow> Some (ts @ rest)))"

subsection \<open>From tokens to a value\<close>

text \<open>
  The containers that are still open, innermost first: an array with the elements read
  so far, an object with its members and the key that waits for its value (both lists
  newest first).
\<close>

datatype frame =
    ArrFrame "json list"
  | ObjFrame "(string \<times> json) list" "string option"

datatype phase =
    WantValue        \<comment> \<open>a value must follow\<close>
  | ArrOpened        \<comment> \<open>after \<^verbatim>\<open>[\<close>: a value or \<^verbatim>\<open>]\<close>\<close>
  | ObjOpened        \<comment> \<open>after \<^verbatim>\<open>{\<close>: a key or \<^verbatim>\<open>}\<close>\<close>
  | WantKey          \<comment> \<open>after a comma in an object\<close>
  | WantColon string
  | AfterElem        \<comment> \<open>after an element: a comma or \<^verbatim>\<open>]\<close>\<close>
  | AfterMember      \<comment> \<open>after a member: a comma or \<^verbatim>\<open>}\<close>\<close>
  | Finished json

fun complete :: "json \<Rightarrow> frame list \<Rightarrow> (frame list \<times> phase) option" where
  "complete v [] = Some ([], Finished v)"
| "complete v (ArrFrame es # st) = Some (ArrFrame (v # es) # st, AfterElem)"
| "complete v (ObjFrame ms (Some k) # st) = Some (ObjFrame ((k, v) # ms) None # st, AfterMember)"
| "complete v (ObjFrame ms None # st) = None"

fun begin_value :: "token \<Rightarrow> frame list \<Rightarrow> (frame list \<times> phase) option" where
  "begin_value NullTok st = complete JNull st"
| "begin_value TrueTok st = complete (JBool True) st"
| "begin_value FalseTok st = complete (JBool False) st"
| "begin_value (NumberTok n) st = complete (JNum n) st"
| "begin_value (StringTok s) st = complete (JStr s) st"
| "begin_value LBracket st = Some (ArrFrame [] # st, ArrOpened)"
| "begin_value LBrace st = Some (ObjFrame [] None # st, ObjOpened)"
| "begin_value _ st = None"

fun begin_key :: "token \<Rightarrow> frame list \<Rightarrow> (frame list \<times> phase) option" where
  "begin_key (StringTok k) st = Some (st, WantColon k)"
| "begin_key _ st = None"

fun close_array :: "frame list \<Rightarrow> (frame list \<times> phase) option" where
  "close_array (ArrFrame es # st) = complete (JArr (rev es)) st"
| "close_array _ = None"

fun close_object :: "frame list \<Rightarrow> (frame list \<times> phase) option" where
  "close_object (ObjFrame ms None # st) = complete (JObj (rev ms)) st"
| "close_object _ = None"

fun parse_step :: "phase \<Rightarrow> token \<Rightarrow> frame list \<Rightarrow> (frame list \<times> phase) option" where
  "parse_step WantValue t st = begin_value t st"
| "parse_step ArrOpened t st = (if t = RBracket then close_array st else begin_value t st)"
| "parse_step ObjOpened t st = (if t = RBrace then close_object st else begin_key t st)"
| "parse_step WantKey t st = begin_key t st"
| "parse_step (WantColon k) t st =
     (case (t, st) of
        (Colon, ObjFrame ms None # st') \<Rightarrow> Some (ObjFrame ms (Some k) # st', WantValue)
      | _ \<Rightarrow> None)"
| "parse_step AfterElem t st =
     (if t = Comma then Some (st, WantValue)
      else if t = RBracket then close_array st else None)"
| "parse_step AfterMember t st =
     (if t = Comma then Some (st, WantKey)
      else if t = RBrace then close_object st else None)"
| "parse_step (Finished v) t st = None"

fun parse_tokens :: "frame list \<Rightarrow> phase \<Rightarrow> token list \<Rightarrow> json option" where
  "parse_tokens st ph [] = (case ph of Finished v \<Rightarrow> Some v | _ \<Rightarrow> None)"
| "parse_tokens st ph (t # ts) =
     (case parse_step ph t st of
        None \<Rightarrow> None
      | Some (st', ph') \<Rightarrow> parse_tokens st' ph' ts)"

text \<open>\<^verbatim>\<open>JSON.parse(text)\<close>: the value, or the SyntaxError it throws.\<close>

definition JSON_parse :: "string \<Rightarrow> js_error + json" where
  "JSON_parse text =
     (case tokenize Between text of
        None \<Rightarrow> Inl SyntaxError
      | Some ts \<Rightarrow>
          (case parse_tokens [] WantValue ts of
             None \<Rightarrow> Inl SyntaxError
           | Some v \<Rightarrow> Inr v))"

subsection \<open>From a value to text\<close>

fun join :: "string \<Rightarrow> string list \<Rightarrow> string" where
  "join sep [] = []"
| "join sep [x] = x"
| "join sep (x # y # ys) = x @ sep @ join sep (y # ys)"

definition quote :: "string \<Rightarrow> string" where
  "quote s = [CHR 0x22] @ s @ [CHR 0x22]"

text \<open>\<^verbatim>\<open>JSON.stringify(value)\<close> with no indentation.\<close>

fun JSON_stringify :: "json \<Rightarrow> string" where
  "JSON_stringify JNull = ''null''"
| "JSON_stringify (JBool b) = (if b then ''true'' else ''false'')"
| "JSON_stringify (JNum n) = n"
| "JSON_stringify (JStr s) = quote s"
| "JSON_stringify (JArr vs) = ''['' @ join '','' (map JSON_stringify vs) @ '']''"
| "JSON_stringify (JObj ms) =
     ''{'' @ join '','' (map (\<lambda>(k, v). quote k @ '':'' @ JSON_stringify v) ms) @ ''}''"

section \<open>JavaScript values as the code tests them\<close>

text \<open>
  A number literal denotes zero when its mantissa has no digit but 0. (A literal whose
  magnitude lies below the range of a double also reads as zero in the runtime; that
  rounding is not modelled.)
\<close>

definition num_is_zero :: "string \<Rightarrow> bool" where
  "num_is_zero n =
     (filter (\<lambda>c. c \<in> set ''123456789'') (takeWhile (\<lambda>c. \<not> is_exp_mark c) n) = [])"

text \<open>The test \<^verbatim>\<open>if (x)\<close>; \<open>None\<close> is \<^verbatim>\<open>undefined\<close>, a property the object does not have.\<close>

fun truthy :: "json option \<Rightarrow> bool" where
  "truthy None = False"
| "truthy (Some JNull) = False"
| "truthy (Some (JBool b)) = b"
| "truthy (Some (JNum n)) = (\<not> num_is_zero n)"
| "truthy (Some (JStr s)) = (s \<noteq> [])"
| "truthy (Some (JArr vs)) = True"
| "truthy (Some (JObj ms)) = True"

text \<open>
  The test \<^verbatim>\<open>arr.length > 0\<close>. An array and a string have a length; reading a property
  of \<^verbatim>\<open>null\<close> throws; a number and a boolean have no such property, and
  \<^verbatim>\<open>undefined > 0\<close> is false, as it is for an object without a member of that name.
  For an object that has a member named \<^verbatim>\<open>length\<close> (or a key written with an escape,
  which is not decoded here) the runtime compares that member after a numeric
  conversion; the model stops there.
\<close>

fun has_items :: "json \<Rightarrow> js_error + bool" where
  "has_items (JArr vs) = Inr (vs \<noteq> [])"
| "has_items (JStr s) = Inr (s \<noteq> [])"
| "has_items JNull = Inl TypeError"
| "has_items (JBool b) = Inr False"
| "has_items (JNum n) = Inr False"
| "has_items (JObj ms) =
     (if list_ex (\<lambda>(k, v). k = ''length'' \<or> CHR 0x5C \<in> set k) ms
      then Inl Unmodelled else Inr False)"

text \<open>\<^verbatim>\<open>values.some(arr => arr.length > 0)\<close>: left to right, stopping at the first hit.\<close>

fun some_has_items :: "json list \<Rightarrow> js_error + bool" where
  "some_has_items [] = Inr False"
| "some_has_items (v # vs) =
     (case has_items v of
        Inl e \<Rightarrow> Inl e
      | Inr hit \<Rightarrow> (if hit then Inr True else some_has_items vs))"

section \<open>The state the settings code works on\<close>

text \<open>
  \<^verbatim>\<open>localStorage\<close>: string keys to string values; \<^verbatim>\<open>getItem\<close> of a missing key is \<^verbatim>\<open>null\<close>.
  A write that the browser refuses for lack of space is not modelled.
\<close>

type_synonym storage = "string \<rightharpoonup> string"

text \<open>The interface \<^verbatim>\<open>AppData\<close>. Its fields are declared \<^verbatim>\<open>any[]\<close>; at run time they hold
  whatever \<^verbatim>\<open>JSON.parse\<close> returned.\<close>

record AppData =
  folders :: json
  actionButtons :: json
  trainings :: json
  statistics :: json
  charts :: json

datatype user = User (uid: string)

datatype session = Session (session_user: user)

record pg_error =
  code :: string
  message :: string

text \<open>What a query of the Supabase client resolves to: \<^verbatim>\<open>{ data, error }\<close>.\<close>

record response =
  data :: "obj option"
  error :: "pg_error option"

text \<open>
  The remote side. A row of a table is an object with one property per column.
  \<open>select_fault\<close> and \<open>upsert_fault\<close> stand for a failure of the transport or of the
  service (network, permission): when set, the request fails with that error and the
  tables are not touched. \<open>server_now\<close> is what \<^verbatim>\<open>now()\<close> gives in the database.
\<close>

record backend =
  user_settings :: "obj list"
  profiles :: "obj list"
  select_fault :: "pg_error option"
  upsert_fault :: "pg_error option"
  server_now :: string

text \<open>The alerts, by content (the texts are Russian in the source).\<close>

datatype notice =
    LoginRequired
  | SettingsSynced
  | SaveFailed string
  | SaveSucceeded
  | LoadFailed string
  | InitialSyncFailed string
  | InitialSyncSucceeded

datatype event =
    ConsoleLog string
  | ConsoleError string
  | Alert notice
  | SetItem string string
  | SetTimeoutReload nat
  | SelectSingle string string string
  | Upsert string obj string
  | Reloaded

text \<open>The state of the component \<^verbatim>\<open>AuthProvider\<close>.\<close>

record auth_state =
  user :: "user option"
  session :: "session option"
  profile :: "obj option"
  loading :: bool

text \<open>
  Everything the code reads or changes. \<open>current_user\<close> is what
  \<^verbatim>\<open>supabase.auth.getUser()\<close> resolves to, \<open>clock\<close> what
  \<^verbatim>\<open>new Date().toISOString()\<close> returns, \<open>events\<close> the calls made so far, oldest first,
  and \<open>reload_timers\<close> the delays of the reloads this page has scheduled.
\<close>

record world =
  localStorage :: storage
  current_user :: "user option"
  clock :: string
  db :: backend
  events :: "event list"
  reload_timers :: "nat list"
  react :: auth_state

definition emit :: "event \<Rightarrow> world \<Rightarrow> world" where
  "emit e w = w\<lparr>events := events w @ [e]\<rparr>"

definition setItem :: "string \<Rightarrow> string \<Rightarrow> world \<Rightarrow> world" where
  "setItem key text w = emit (SetItem key text) (w\<lparr>localStorage := (localStorage w)(key \<mapsto> text)\<rparr>)"

text \<open>\<^verbatim>\<open>setTimeout(() => window.location.reload(), ms)\<close>\<close>

definition setTimeout_reload :: "nat \<Rightarrow> world \<Rightarrow> world" where
  "setTimeout_reload ms w = emit (SetTimeoutReload ms) (w\<lparr>reload_timers := reload_timers w @ [ms]\<rparr>)"

section \<open>The remote table \<^verbatim>\<open>user_settings\<close>\<close>

text \<open>
  From the migration: \<^verbatim>\<open>user_id uuid NOT NULL PRIMARY KEY\<close>, five \<^verbatim>\<open>jsonb\<close> columns with the
  default \<^verbatim>\<open>'[]'\<close>, and \<^verbatim>\<open>updated_at timestamptz DEFAULT now()\<close>, which a trigger sets
  again before every update of a row. The row level policies let a signed-in user
  read, insert and update the row of the own id only; the code never names another id,
  and the policies, the foreign key and the syntax of a uuid are not modelled.
\<close>

definition user_settings_columns :: "string list" where
  "user_settings_columns =
     [''user_id'', ''folders'', ''action_buttons'', ''trainings'', ''statistics'', ''charts'',
      ''updated_at'']"

definition column_default :: "backend \<Rightarrow> string \<Rightarrow> json" where
  "column_default b c =
     (if c = ''updated_at'' then JStr (server_now b)
      else if c = ''user_id'' then JNull
      else JArr [])"

definition has_user_id :: "string \<Rightarrow> obj \<Rightarrow> bool" where
  "has_user_id u row = (map_of row ''user_id'' = Some (JStr u))"

text \<open>The row an insert of \<open>payload\<close> makes: the payload's value, or the column's default.\<close>

definition inserted_row :: "backend \<Rightarrow> obj \<Rightarrow> obj" where
  "inserted_row b payload =
     map (\<lambda>c. (c, case map_of payload c of Some v \<Rightarrow> v | None \<Rightarrow> column_default b c))
       user_settings_columns"

text \<open>\<^verbatim>\<open>ON CONFLICT (user_id) DO UPDATE\<close>: the payload's columns replace the row's, and the
  trigger \<^verbatim>\<open>on_user_settings_update\<close> stamps \<^verbatim>\<open>updated_at\<close>.\<close>

definition updated_row :: "backend \<Rightarrow> obj \<Rightarrow> obj \<Rightarrow> obj" where
  "updated_row b payload row =
     map (\<lambda>(c, old).
            (c, if c = ''updated_at'' then JStr (server_now b)
                else (case map_of payload c of Some v \<Rightarrow> v | None \<Rightarrow> old)))
       row"

text \<open>
  \<^verbatim>\<open>from('user_settings').upsert(payload, { onConflict: 'user_id' })\<close> as the service
  answers it: a key of the payload that is no column of the table is refused
  (PGRST204) and nothing is written; a payload without a user id violates
  \<^verbatim>\<open>NOT NULL\<close> (23502), one whose user id is no string is no uuid (22P02).
\<close>

definition upsert_rows :: "obj \<Rightarrow> backend \<Rightarrow> pg_error option \<times> backend" where
  "upsert_rows payload b =
     (case upsert_fault b of
        Some e \<Rightarrow> (Some e, b)
      | None \<Rightarrow>
          (case filter (\<lambda>k. k \<notin> set user_settings_columns) (map fst payload) of
             k # ks \<Rightarrow>
               (Some \<lparr>code = ''PGRST204'',
                      message = ''Could not find the '' @ k @ '' column of user_settings''\<rparr>, b)
           | [] \<Rightarrow>
               (case map_of payload ''user_id'' of
                  Some (JStr u) \<Rightarrow>
                    (if list_ex (has_user_id u) (user_settings b)
                     then (None, b\<lparr>user_settings :=
                             map (\<lambda>row. if has_user_id u row then updated_row b payload row else row)
                               (user_settings b)\<rparr>)
                     else (None, b\<lparr>user_settings := user_settings b @ [inserted_row b payload]\<rparr>))
                | Some JNull \<Rightarrow>
                    (Some \<lparr>code = ''23502'', message = ''null value in column user_id''\<rparr>, b)
                | None \<Rightarrow>
                    (Some \<lparr>code = ''23502'', message = ''null value in column user_id''\<rparr>, b)
                | Some v \<Rightarrow>
                    (Some \<lparr>code = ''22P02'', message = ''invalid input syntax for type uuid''\<rparr>, b))))"

text \<open>
  \<^verbatim>\<open>select('*').eq(column, value).single()\<close> on the rows of a table: exactly one matching
  row is the data; none (or several) is the error PGRST116 with no data.
\<close>

definition single_row :: "obj list \<Rightarrow> string \<Rightarrow> string \<Rightarrow> pg_error option \<Rightarrow> response" where
  "single_row rows column v fault =
     (case fault of
        Some e \<Rightarrow> \<lparr>data = None, error = Some e\<rparr>
      | None \<Rightarrow>
          (case filter (\<lambda>row. map_of row column = Some (JStr v)) rows of
             [row] \<Rightarrow> \<lparr>data = Some row, error = None\<rparr>
           | _ \<Rightarrow> \<lparr>data = None,
                   error = Some \<lparr>code = ''PGRST116'',
                                 message = ''JSON object requested, multiple (or no) rows returned''\<rparr>\<rparr>))"

definition table_rows :: "backend \<Rightarrow> string \<Rightarrow> obj list" where
  "table_rows b t =
     (if t = ''user_settings'' then user_settings b
      else if t = ''profiles'' then profiles b
      else [])"

text \<open>The two requests, as calls: each is recorded, then answered by the remote side.\<close>

definition select_single :: "string \<Rightarrow> string \<Rightarrow> string \<Rightarrow> world \<Rightarrow> response \<times> world" where
  "select_single t column v w =
     (single_row (table_rows (db w) t) column v (select_fault (db w)),
      emit (SelectSingle t column v) w)"

definition upsert :: "obj \<Rightarrow> world \<Rightarrow> pg_error option \<times> world" where
  "upsert payload w =
     (case upsert_rows payload (db w) of
        (err, b) \<Rightarrow> (err, emit (Upsert ''user_settings'' payload ''user_id'') (w\<lparr>db := b\<rparr>)))"

section \<open>The settings code (\<^verbatim>\<open>src/lib/data-manager.ts\<close>)\<close>

text \<open>\<^verbatim>\<open>localStorage.getItem(key) || '[]'\<close>: \<^verbatim>\<open>null\<close> and the empty string are falsy.\<close>

definition stored_or_empty :: "string option \<Rightarrow> string" where
  "stored_or_empty x = (case x of None \<Rightarrow> ''[]'' | Some s \<Rightarrow> (if s = [] then ''[]'' else s))"

definition read_slot :: "storage \<Rightarrow> string \<Rightarrow> js_error + json" where
  "read_slot ls key = JSON_parse (stored_or_empty (ls key))"

text \<open>The five reads in the order of the source; the first parse that throws ends the call.\<close>

definition gatherDataFromLocalStorage :: "storage \<Rightarrow> js_error + AppData" where
  "gatherDataFromLocalStorage ls =
     (case read_slot ls ''poker-ranges-folders'' of Inl e \<Rightarrow> Inl e | Inr f \<Rightarrow>
      (case read_slot ls ''poker-ranges-actions'' of Inl e \<Rightarrow> Inl e | Inr a \<Rightarrow>
      (case read_slot ls ''training-sessions'' of Inl e \<Rightarrow> Inl e | Inr t \<Rightarrow>
      (case read_slot ls ''training-statistics'' of Inl e \<Rightarrow> Inl e | Inr s \<Rightarrow>
      (case read_slot ls ''userCharts'' of Inl e \<Rightarrow> Inl e | Inr c \<Rightarrow>
         Inr \<lparr>folders = f, actionButtons = a, trainings = t, statistics = s, charts = c\<rparr>)))))"

text \<open>\<^verbatim>\<open>if (data.prop) localStorage.setItem(key, JSON.stringify(data.prop))\<close>\<close>

definition apply_slot :: "obj \<Rightarrow> string \<Rightarrow> string \<Rightarrow> world \<Rightarrow> world" where
  "apply_slot dat prop key w =
     (case map_of dat prop of
        Some v \<Rightarrow> (if truthy (Some v) then setItem key (JSON_stringify v) w else w)
      | None \<Rightarrow> w)"

definition applyDataToLocalStorage :: "obj \<Rightarrow> world \<Rightarrow> world" where
  "applyDataToLocalStorage dat w =
     setTimeout_reload 250
       (emit (Alert SettingsSynced)
         (apply_slot dat ''charts'' ''userCharts''
           (apply_slot dat ''statistics'' ''training-statistics''
             (apply_slot dat ''trainings'' ''training-sessions''
               (apply_slot dat ''actionButtons'' ''poker-ranges-actions''
                 (apply_slot dat ''folders'' ''poker-ranges-folders'' w))))))"

text \<open>\<^verbatim>\<open>{ user_id: id, ...settingsData, updated_at: new Date().toISOString() }\<close>\<close>

definition settings_payload :: "string \<Rightarrow> AppData \<Rightarrow> string \<Rightarrow> obj" where
  "settings_payload userId settingsData now =
     [(''user_id'', JStr userId),
      (''folders'', folders settingsData),
      (''actionButtons'', actionButtons settingsData),
      (''trainings'', trainings settingsData),
      (''statistics'', statistics settingsData),
      (''charts'', charts settingsData),
      (''updated_at'', JStr now)]"

text \<open>
  An \<^verbatim>\<open>async\<close> function returns the state it leaves and, when an exception ended it
  (its promise rejects), that exception.
\<close>

definition exportUserSettings :: "world \<Rightarrow> js_error option \<times> world" where
  "exportUserSettings w =
     (case current_user w of
        None \<Rightarrow> (None, emit (Alert LoginRequired) w)
      | Some u \<Rightarrow>
          (let w1 = emit (ConsoleLog ''Uploading settings to Supabase for user:'') w in
           case gatherDataFromLocalStorage (localStorage w1) of
             Inl e \<Rightarrow> (Some e, w1)
           | Inr settingsData \<Rightarrow>
               (case upsert (settings_payload (uid u) settingsData (clock w1)) w1 of
                  (Some e, w2) \<Rightarrow>
                    (None, emit (Alert (SaveFailed (message e)))
                             (emit (ConsoleError ''Error uploading settings:'') w2))
                | (None, w2) \<Rightarrow>
                    (None, emit (Alert SaveSucceeded)
                             (emit (ConsoleLog ''Settings uploaded successfully.'') w2)))))"

definition uploadInitialSettings :: "string \<Rightarrow> AppData \<Rightarrow> world \<Rightarrow> world" where
  "uploadInitialSettings userId settingsData w =
     (case upsert (settings_payload userId settingsData (clock w)) w of
        (Some e, w1) \<Rightarrow>
          emit (Alert (InitialSyncFailed (message e)))
            (emit (ConsoleError ''Error on initial upload:'') w1)
      | (None, w1) \<Rightarrow> emit (Alert InitialSyncSucceeded) w1)"

text \<open>\<^verbatim>\<open>Object.values(localData)\<close>: the fields in the order the object literal lists them.\<close>

definition Object_values :: "AppData \<Rightarrow> json list" where
  "Object_values d = [folders d, actionButtons d, trainings d, statistics d, charts d]"

text \<open>\<^verbatim>\<open>const { user_id, updated_at, ...settingsData } = data\<close>\<close>

definition rest_settings :: "obj \<Rightarrow> obj" where
  "rest_settings dat = filter (\<lambda>(k, v). k \<noteq> ''user_id'' \<and> k \<noteq> ''updated_at'') dat"

text \<open>\<^verbatim>\<open>error && error.code !== 'PGRST116'\<close>: the error that ends the import, if any.\<close>

definition fatal_error :: "response \<Rightarrow> pg_error option" where
  "fatal_error r =
     (case error r of
        Some e \<Rightarrow> (if code e \<noteq> ''PGRST116'' then Some e else None)
      | None \<Rightarrow> None)"

definition importUserSettings :: "world \<Rightarrow> js_error option \<times> world" where
  "importUserSettings w =
     (case current_user w of
        None \<Rightarrow> (None, emit (ConsoleLog ''User not logged in, cannot import settings.'') w)
      | Some u \<Rightarrow>
          (case select_single ''user_settings'' ''user_id'' (uid u)
                  (emit (ConsoleLog ''Importing settings from Supabase for user:'') w) of
             (r, w1) \<Rightarrow>
               (case fatal_error r of
                  Some e \<Rightarrow>
                    (None, emit (Alert (LoadFailed (message e)))
                             (emit (ConsoleError ''Error importing settings:'') w1))
                | None \<Rightarrow>
                    (case data r of
                       Some dat \<Rightarrow>
                         (None, applyDataToLocalStorage (rest_settings dat)
                                  (emit (ConsoleLog ''Settings found in Supabase, applying to local storage.'') w1))
                     | None \<Rightarrow>
                         (let w2 = emit (ConsoleLog ''No settings found in Supabase for this user. Checking for local data to perform initial sync.'') w1 in
                          case gatherDataFromLocalStorage (localStorage w2) of
                            Inl e \<Rightarrow> (Some e, w2)
                          | Inr localData \<Rightarrow>
                              (case some_has_items (Object_values localData) of
                                 Inl e \<Rightarrow> (Some e, w2)
                               | Inr hasLocalData \<Rightarrow>
                                   (if hasLocalData
                                    then (None, uploadInitialSettings (uid u) localData
                                                  (emit (ConsoleLog ''Local data found. Performing initial upload.'') w2))
                                    else (None, emit (ConsoleLog ''No remote or local settings found. Fresh start.'') w2))))))))"

section \<open>The session hook (\<^verbatim>\<open>AuthProvider\<close>)\<close>

text \<open>
  The callback given to \<^verbatim>\<open>supabase.auth.onAuthStateChange\<close>. It does not look at the
  kind of the event. \<^verbatim>\<open>importUserSettings()\<close> is started and not awaited; an exception
  in it is nobody's to catch. The model runs the import to its end before
  \<^verbatim>\<open>setLoading(false)\<close>; the two touch different parts of the state.
\<close>

definition onAuthStateChange :: "session option \<Rightarrow> world \<Rightarrow> world" where
  "onAuthStateChange s w =
     (let currentUser = map_option session_user s;
          w1 = w\<lparr>react := (react w)\<lparr>session := s, user := currentUser\<rparr>\<rparr>
      in case currentUser of
           Some cu \<Rightarrow>
             (case select_single ''profiles'' ''id'' (uid cu) w1 of
                (r, w2) \<Rightarrow>
                  (let w3 = (case fatal_error r of
                               Some e \<Rightarrow> (emit (ConsoleError ''Error fetching profile:'') w2)
                                           \<lparr>react := (react w2)\<lparr>profile := None\<rparr>\<rparr>
                             | None \<Rightarrow> w2\<lparr>react := (react w2)\<lparr>profile := data r\<rparr>\<rparr>);
                       w4 = snd (importUserSettings w3)
                   in w4\<lparr>react := (react w4)\<lparr>loading := False\<rparr>\<rparr>))
         | None \<Rightarrow> w1\<lparr>react := (react w1)\<lparr>profile := None, loading := False\<rparr>\<rparr>)"

text \<open>
  A page load: the component starts from its initial state and no timer is left; the
  local storage, the signed-in user and the remote side stay. The effect subscribes,
  and the auth client calls the callback with the session it holds.
\<close>

definition page_load :: "world \<Rightarrow> world" where
  "page_load w =
     onAuthStateChange (map_option Session (current_user w))
       (w\<lparr>reload_timers := [],
          react := \<lparr>user = None, session = None, profile = None, loading = True\<rparr>\<rparr>)"

text \<open>
  Page loads that follow each other: when the page has scheduled a reload, the timer
  fires and the page loads again. The first argument bounds how many loads are
  followed.
\<close>

fun page_loads :: "nat \<Rightarrow> world \<Rightarrow> world" where
  "page_loads 0 w = w"
| "page_loads (Suc n) w =
     (let w' = page_load w
      in if reload_timers w' = [] then w' else page_loads n (emit Reloaded w'))"

definition reloads :: "world \<Rightarrow> nat" where
  "reloads w = length (filter (\<lambda>e. e = Reloaded) (events w))"

section \<open>Notions the properties are stated with\<close>


text \<open>
  A value of the type \<^verbatim>\<open>Partial<AppData>\<close>: each slot is absent or holds a sequence.
  \<open>partial_obj\<close> is the object such a value is at run time, with the properties that
  are present.
\<close>

record PartialAppData =
  folders_opt :: "json list option"
  actionButtons_opt :: "json list option"
  trainings_opt :: "json list option"
  statistics_opt :: "json list option"
  charts_opt :: "json list option"

definition present :: "string \<Rightarrow> json list option \<Rightarrow> obj" where
  "present prop slot = (case slot of Some xs \<Rightarrow> [(prop, JArr xs)] | None \<Rightarrow> [])"

definition partial_obj :: "PartialAppData \<Rightarrow> obj" where
  "partial_obj p =
     present ''folders'' (folders_opt p) @
     present ''actionButtons'' (actionButtons_opt p) @
     present ''trainings'' (trainings_opt p) @
     present ''statistics'' (statistics_opt p) @
     present ''charts'' (charts_opt p)"

text \<open>The slot of a partial bundle that belongs to a key of the local storage.\<close>

definition slot_at :: "PartialAppData \<Rightarrow> string \<Rightarrow> json list option" where
  "slot_at p key =
     (if key = ''poker-ranges-folders'' then folders_opt p
      else if key = ''poker-ranges-actions'' then actionButtons_opt p
      else if key = ''training-sessions'' then trainings_opt p
      else if key = ''training-statistics'' then statistics_opt p
      else if key = ''userCharts'' then charts_opt p
      else None)"

text \<open>
  The answer \<^verbatim>\<open>importUserSettings\<close> gets to its query
  \<^verbatim>\<open>from('user_settings').select('*').eq('user_id', user.id).single()\<close>.
\<close>

definition fetchByUser :: "world \<Rightarrow> string \<Rightarrow> response" where
  "fetchByUser w userId = fst (select_single ''user_settings'' ''user_id'' userId w)"

text \<open>Kinds of calls in the record of events.\<close>

fun is_upsert :: "event \<Rightarrow> bool" where
  "is_upsert (Upsert t payload c) = True"
| "is_upsert _ = False"

fun is_select :: "event \<Rightarrow> bool" where
  "is_select (SelectSingle t c v) = True"
| "is_select _ = False"

fun is_setItem :: "event \<Rightarrow> bool" where
  "is_setItem (SetItem k t) = True"
| "is_setItem _ = False"

fun is_reload_timer :: "event \<Rightarrow> bool" where
  "is_reload_timer (SetTimeoutReload ms) = True"
| "is_reload_timer _ = False"


subsection \<open>The table as the migration means it\<close>

text \<open>
  The payload of an upsert with the action buttons under the name of their column,
  which the source does not build, and the shape of a table that the primary key and
  the column list allow: every row has the seven columns, and no two rows have the
  same user id.
\<close>

definition column_payload :: "string \<Rightarrow> AppData \<Rightarrow> string \<Rightarrow> obj" where
  "column_payload userId settingsData now =
     [(''user_id'', JStr userId),
      (''folders'', folders settingsData),
      (''action_buttons'', actionButtons settingsData),
      (''trainings'', trainings settingsData),
      (''statistics'', statistics settingsData),
      (''charts'', charts settingsData),
      (''updated_at'', JStr now)]"

definition table_ok :: "obj list \<Rightarrow> bool" where
  "table_ok rows =
     (list_all (\<lambda>row. map fst row = user_settings_columns) rows \<and>
      distinct (map (\<lambda>row. map_of row ''user_id'') rows))"

subsection \<open>States for the examples\<close>

text \<open>
  A user, a row of \<^verbatim>\<open>user_settings\<close> for that user with one chart, and the state of a
  page on which that user is signed in, with a given local storage and table.
\<close>

definition alice :: user where
  "alice = User ''u1''"

definition charts_row :: obj where
  "charts_row =
     [(''user_id'', JStr ''u1''), (''folders'', JArr []), (''action_buttons'', JArr []),
      (''trainings'', JArr []), (''statistics'', JArr []),
      (''charts'', JArr [JObj [(''id'', JNum ''9'')]]),
      (''updated_at'', JStr ''2024-05-01T09:00:00+00:00'')]"

text \<open>A row whose column of the action buttons holds one button.\<close>

definition actions_row :: obj where
  "actions_row =
     [(''user_id'', JStr ''u1''), (''folders'', JArr []),
      (''action_buttons'', JArr [JObj [(''id'', JNum ''7'')]]),
      (''trainings'', JArr []), (''statistics'', JArr []), (''charts'', JArr []),
      (''updated_at'', JStr ''2024-05-01T09:00:00+00:00'')]"

definition signed_in :: "storage \<Rightarrow> obj list \<Rightarrow> world" where
  "signed_in ls rows =
     \<lparr>localStorage = ls, current_user = Some alice, clock = ''2024-05-01T10:00:00.000Z'',
      db = \<lparr>user_settings = rows, profiles = [], select_fault = None, upsert_fault = None,
            server_now = ''2024-05-01T10:00:00+00:00''\<rparr>,
      events = [], reload_timers = [],
      react = \<lparr>user = None, session = None, profile = None, loading = True\<rparr>\<rparr>"

section \<open>Properties\<close>

subsection \<open>How the state changes\<close>

lemma emit_fields [simp]:
  "localStorage (emit e w) = localStorage w"
  "current_user (emit e w) = current_user w"
  "clock (emit e w) = clock w"
  "db (emit e w) = db w"
  "reload_timers (emit e w) = reload_timers w"
  "react (emit e w) = react w"
  "events (emit e w) = events w @ [e]"
  by (simp_all add: emit_def)

lemma setItem_fields [simp]:
  "localStorage (setItem key text w) = (localStorage w)(key \<mapsto> text)"
  "current_user (setItem key text w) = current_user w"
  "clock (setItem key text w) = clock w"
  "db (setItem key text w) = db w"
  "reload_timers (setItem key text w) = reload_timers w"
  "react (setItem key text w) = react w"
  "events (setItem key text w) = events w @ [SetItem key text]"
  by (simp_all add: setItem_def)

lemma setTimeout_reload_fields [simp]:
  "localStorage (setTimeout_reload ms w) = localStorage w"
  "current_user (setTimeout_reload ms w) = current_user w"
  "clock (setTimeout_reload ms w) = clock w"
  "db (setTimeout_reload ms w) = db w"
  "reload_timers (setTimeout_reload ms w) = reload_timers w @ [ms]"
  "react (setTimeout_reload ms w) = react w"
  "events (setTimeout_reload ms w) = events w @ [SetTimeoutReload ms]"
  by (simp_all add: setTimeout_reload_def)

lemma apply_slot_fields [simp]:
  "current_user (apply_slot dat prop key w) = current_user w"
  "clock (apply_slot dat prop key w) = clock w"
  "db (apply_slot dat prop key w) = db w"
  "reload_timers (apply_slot dat prop key w) = reload_timers w"
  "react (apply_slot dat prop key w) = react w"
  by (simp_all add: apply_slot_def split: option.splits)

lemma apply_slot_localStorage:
  "localStorage (apply_slot dat prop key w) k =
     (if k = key \<and> truthy (map_of dat prop)
      then map_option JSON_stringify (map_of dat prop) else localStorage w k)"
  by (cases "map_of dat prop") (auto simp: apply_slot_def)

lemma applyDataToLocalStorage_fields [simp]:
  "current_user (applyDataToLocalStorage dat w) = current_user w"
  "clock (applyDataToLocalStorage dat w) = clock w"
  "db (applyDataToLocalStorage dat w) = db w"
  "reload_timers (applyDataToLocalStorage dat w) = reload_timers w @ [250]"
  "react (applyDataToLocalStorage dat w) = react w"
  by (simp_all add: applyDataToLocalStorage_def)

lemma select_single_fields [simp]:
  "localStorage (snd (select_single t c v w)) = localStorage w"
  "current_user (snd (select_single t c v w)) = current_user w"
  "clock (snd (select_single t c v w)) = clock w"
  "db (snd (select_single t c v w)) = db w"
  "reload_timers (snd (select_single t c v w)) = reload_timers w"
  "react (snd (select_single t c v w)) = react w"
  "events (snd (select_single t c v w)) = events w @ [SelectSingle t c v]"
  by (simp_all add: select_single_def)

lemma select_single_split:
  "select_single ''user_settings'' ''user_id'' v (emit e w) =
     (fetchByUser w v, emit (SelectSingle ''user_settings'' ''user_id'' v) (emit e w))"
  by (simp add: select_single_def fetchByUser_def)

lemma upsert_fields [simp]:
  "localStorage (snd (upsert payload w)) = localStorage w"
  "current_user (snd (upsert payload w)) = current_user w"
  "clock (snd (upsert payload w)) = clock w"
  "reload_timers (snd (upsert payload w)) = reload_timers w"
  "react (snd (upsert payload w)) = react w"
  "events (snd (upsert payload w)) = events w @ [Upsert ''user_settings'' payload ''user_id'']"
  by (simp_all add: upsert_def split: prod.splits)

lemma apply_slot_events:
  "\<forall>k t. \<not> P (SetItem k t) \<Longrightarrow>
   filter P (events (apply_slot dat prop key w)) = filter P (events w)"
  by (simp add: apply_slot_def split: option.splits)

lemma applyDataToLocalStorage_events:
  assumes "\<forall>k t. \<not> P (SetItem k t)"
  shows "filter P (events (applyDataToLocalStorage dat w)) =
           filter P (events w) @ filter P [Alert SettingsSynced, SetTimeoutReload 250]"
  unfolding applyDataToLocalStorage_def
  by (simp add: apply_slot_events [OF assms])

lemma map_of_rest_settings:
  "map_of (rest_settings dat) k =
     (if k = ''user_id'' \<or> k = ''updated_at'' then None else map_of dat k)"
  unfolding rest_settings_def by (induction dat) auto

lemma uploadInitialSettings_fields [simp]:
  "localStorage (uploadInitialSettings userId d w) = localStorage w"
  "current_user (uploadInitialSettings userId d w) = current_user w"
  "reload_timers (uploadInitialSettings userId d w) = reload_timers w"
  by (simp_all add: uploadInitialSettings_def upsert_def split: prod.splits option.splits)


lemma fetchByUser_db: "db w' = db w \<Longrightarrow> fetchByUser w' v = fetchByUser w v"
  by (simp add: fetchByUser_def select_single_def)

lemma reloads_emit [simp]: "reloads (emit e w) = reloads w + (if e = Reloaded then 1 else 0)"
  by (simp add: reloads_def)

lemma signed_in_fields [simp]:
  "localStorage (signed_in ls rows) = ls"
  "current_user (signed_in ls rows) = Some alice"
  "clock (signed_in ls rows) = ''2024-05-01T10:00:00.000Z''"
  "events (signed_in ls rows) = []"
  "reload_timers (signed_in ls rows) = []"
  "user_settings (db (signed_in ls rows)) = rows"
  "select_fault (db (signed_in ls rows)) = None"
  by (simp_all add: signed_in_def)

lemma fetchByUser_signed_in_row:
  "fetchByUser (signed_in ls [charts_row]) (uid alice) = \<lparr>data = Some charts_row, error = None\<rparr>"
  by (simp add: fetchByUser_def select_single_def single_row_def table_rows_def
        charts_row_def alice_def)

lemma fetchByUser_signed_in_empty:
  "fetchByUser (signed_in ls []) (uid alice) =
     \<lparr>data = None,
      error = Some \<lparr>code = ''PGRST116'',
                    message = ''JSON object requested, multiple (or no) rows returned''\<rparr>\<rparr>"
  by (simp add: fetchByUser_def select_single_def single_row_def table_rows_def)

lemma row_shape:
  assumes "map fst row = user_settings_columns"
  obtains v1 v2 v3 v4 v5 v6 v7 where
    "row = [(''user_id'', v1), (''folders'', v2), (''action_buttons'', v3), (''trainings'', v4),
            (''statistics'', v5), (''charts'', v6), (''updated_at'', v7)]"
proof -
  from assms obtain p1 p2 p3 p4 p5 p6 p7 where row: "row = [p1, p2, p3, p4, p5, p6, p7]"
    and k: "fst p1 = ''user_id''" "fst p2 = ''folders''" "fst p3 = ''action_buttons''"
      "fst p4 = ''trainings''" "fst p5 = ''statistics''" "fst p6 = ''charts''"
      "fst p7 = ''updated_at''"
    unfolding user_settings_columns_def by (auto simp: map_eq_Cons_conv)
  have "row = [(''user_id'', snd p1), (''folders'', snd p2), (''action_buttons'', snd p3),
      (''trainings'', snd p4), (''statistics'', snd p5), (''charts'', snd p6),
      (''updated_at'', snd p7)]"
    unfolding row using k by (simp add: prod_eq_iff)
  then show thesis by (rule that)
qed

subsection \<open>Reading the local bundle\<close>



lemma JSON_parse_empty_array: "JSON_parse ''[]'' = Inr (JArr [])"
  by (simp add: JSON_parse_def between_step_def is_ws_def)

lemma read_slot_missing:
  "ls key = None \<or> ls key = Some [] \<Longrightarrow> read_slot ls key = Inr (JArr [])"
  by (auto simp: read_slot_def stored_or_empty_def JSON_parse_empty_array)

lemma gather_empty_store:
  "gatherDataFromLocalStorage Map.empty =
     Inr \<lparr>folders = JArr [], actionButtons = JArr [], trainings = JArr [],
          statistics = JArr [], charts = JArr []\<rparr>"
  by (simp add: gatherDataFromLocalStorage_def read_slot_missing)





subsection \<open>Writing a partial bundle\<close>

lemma map_of_partial_obj:
  "map_of (partial_obj p) ''folders'' = map_option JArr (folders_opt p)"
  "map_of (partial_obj p) ''actionButtons'' = map_option JArr (actionButtons_opt p)"
  "map_of (partial_obj p) ''trainings'' = map_option JArr (trainings_opt p)"
  "map_of (partial_obj p) ''statistics'' = map_option JArr (statistics_opt p)"
  "map_of (partial_obj p) ''charts'' = map_option JArr (charts_opt p)"
  by (simp_all add: partial_obj_def present_def map_add_def split: option.splits)

lemma truthy_array: "truthy (map_option JArr slot) = (slot \<noteq> None)"
  by (cases slot) simp_all

text \<open>
  C7: after \<^verbatim>\<open>applyDataToLocalStorage\<close> of a partial bundle, the local storage holds,
  under the key of every slot that is present, the text of that slot and nothing of
  the value held before; every other key, the keys of the absent slots among them,
  holds what it held before. (A sequence is truthy in JavaScript even when empty, so
  the guard of the source lets every present slot through.)
\<close>

theorem applyDataToLocalStorage_overwrites_present:
  "localStorage (applyDataToLocalStorage (partial_obj p) w) key =
     (case slot_at p key of
        Some xs \<Rightarrow> Some (JSON_stringify (JArr xs))
      | None \<Rightarrow> localStorage w key)"
  unfolding applyDataToLocalStorage_def
  by (simp add: apply_slot_localStorage map_of_partial_obj truthy_array slot_at_def
        split: option.splits)

subsection \<open>The import when the remote row exists\<close>

lemma importUserSettings_found:
  assumes "current_user w = Some u"
    and "fetchByUser w (uid u) = \<lparr>data = Some dat, error = None\<rparr>"
  shows "importUserSettings w =
           (None, applyDataToLocalStorage (rest_settings dat)
                    (emit (ConsoleLog ''Settings found in Supabase, applying to local storage.'')
                      (emit (SelectSingle ''user_settings'' ''user_id'' (uid u))
                        (emit (ConsoleLog ''Importing settings from Supabase for user:'') w))))"
  using assms by (simp add: importUserSettings_def select_single_split fatal_error_def)

text \<open>
  When a user is signed in and the query returns a row for that user,
  \<^verbatim>\<open>importUserSettings\<close> hands the row less its \<^verbatim>\<open>user_id\<close> and \<^verbatim>\<open>updated_at\<close> to
  \<^verbatim>\<open>applyDataToLocalStorage\<close>, schedules one reload after the writes, makes no upsert
  and leaves the remote side as it is.
\<close>

lemma importUserSettings_applies_remote:
  assumes "current_user w = Some u"
    and "fetchByUser w (uid u) = \<lparr>data = Some dat, error = None\<rparr>"
  shows "importUserSettings w =
           (None, applyDataToLocalStorage (rest_settings dat)
                    (emit (ConsoleLog ''Settings found in Supabase, applying to local storage.'')
                      (emit (SelectSingle ''user_settings'' ''user_id'' (uid u))
                        (emit (ConsoleLog ''Importing settings from Supabase for user:'') w)))) \<and>
         filter is_reload_timer (events (snd (importUserSettings w))) =
           filter is_reload_timer (events w) @ [SetTimeoutReload 250] \<and>
         filter is_upsert (events (snd (importUserSettings w))) = filter is_upsert (events w) \<and>
         db (snd (importUserSettings w)) = db w"
proof -
  have run: "importUserSettings w =
           (None, applyDataToLocalStorage (rest_settings dat)
                    (emit (ConsoleLog ''Settings found in Supabase, applying to local storage.'')
                      (emit (SelectSingle ''user_settings'' ''user_id'' (uid u))
                        (emit (ConsoleLog ''Importing settings from Supabase for user:'') w))))"
    using assms by (simp add: importUserSettings_def select_single_split fatal_error_def)
  show ?thesis
    unfolding run by (simp add: applyDataToLocalStorage_events)
qed

lemma importUserSettings_applies_remote_example:
  "filter is_reload_timer (events (snd (importUserSettings (signed_in Map.empty [charts_row])))) =
     [SetTimeoutReload 250] \<and>
   filter is_upsert (events (snd (importUserSettings (signed_in Map.empty [charts_row])))) = [] \<and>
   localStorage (snd (importUserSettings (signed_in Map.empty [charts_row]))) ''userCharts'' =
     Some ''[{\"id\":9}]''"
proof -
  have user: "current_user (signed_in Map.empty [charts_row]) = Some alice"
    by simp
  have stored: "localStorage (applyDataToLocalStorage (rest_settings charts_row) w) ''userCharts'' =
      Some ''[{\"id\":9}]''" for w
    by (simp add: applyDataToLocalStorage_def apply_slot_localStorage map_of_rest_settings
          charts_row_def quote_def)
  from importUserSettings_applies_remote [OF user fetchByUser_signed_in_row]
  show ?thesis by (auto simp: stored)
qed

text \<open>
  A row of the table has no property \<^verbatim>\<open>actionButtons\<close>: applying it leaves the local
  slot of the action buttons as it was.
\<close>

lemma rest_settings_of_row:
  assumes "map fst row = user_settings_columns"
  shows "map_of (rest_settings row) ''actionButtons'' = None"
proof -
  from assms obtain v1 v2 v3 v4 v5 v6 v7 where
    "row = [(''user_id'', v1), (''folders'', v2), (''action_buttons'', v3), (''trainings'', v4),
            (''statistics'', v5), (''charts'', v6), (''updated_at'', v7)]"
    by (rule row_shape)
  then show ?thesis by (simp add: rest_settings_def)
qed

lemma applyDataToLocalStorage_of_row_keeps_actions:
  assumes "map fst row = user_settings_columns"
  shows "localStorage (applyDataToLocalStorage (rest_settings row) w) ''poker-ranges-actions'' =
         localStorage w ''poker-ranges-actions''"
  unfolding applyDataToLocalStorage_def
  by (simp add: apply_slot_localStorage rest_settings_of_row [OF assms])

text \<open>
  C3 fails on the code. The row's slot of the action buttons is the property
  \<^verbatim>\<open>action_buttons\<close>; \<^verbatim>\<open>applyDataToLocalStorage\<close> reads \<^verbatim>\<open>data.actionButtons\<close>. With a row
  that holds one button and a local storage that holds an older value, the import
  writes four slots only: the button of the row is not written and the older value
  stays.
\<close>

theorem importUserSettings_drops_action_buttons:
  "fetchByUser (signed_in [''poker-ranges-actions'' \<mapsto> ''[1]''] [actions_row]) ''u1'' =
     \<lparr>data = Some actions_row, error = None\<rparr> \<and>
   map_of actions_row ''action_buttons'' = Some (JArr [JObj [(''id'', JNum ''7'')]]) \<and>
   fst (importUserSettings (signed_in [''poker-ranges-actions'' \<mapsto> ''[1]''] [actions_row])) = None \<and>
   filter is_setItem (events (snd (importUserSettings
       (signed_in [''poker-ranges-actions'' \<mapsto> ''[1]''] [actions_row])))) =
     [SetItem ''poker-ranges-folders'' ''[]'', SetItem ''training-sessions'' ''[]'',
      SetItem ''training-statistics'' ''[]'', SetItem ''userCharts'' ''[]''] \<and>
   localStorage (snd (importUserSettings
       (signed_in [''poker-ranges-actions'' \<mapsto> ''[1]''] [actions_row]))) ''poker-ranges-actions'' =
     Some ''[1]''"
  by code_simp

lemma apply_slot_effect:
  "\<exists>m evs. \<forall>w. localStorage (apply_slot dat prop key w) = localStorage w ++ m \<and>
                 events (apply_slot dat prop key w) = events w @ evs \<and>
                 list_all is_setItem evs"
proof (cases "truthy (map_of dat prop)")
  case True
  then obtain v where v: "map_of dat prop = Some v" by (cases "map_of dat prop") auto
  have "\<forall>w. localStorage (apply_slot dat prop key w) = localStorage w ++ [key \<mapsto> JSON_stringify v] \<and>
            events (apply_slot dat prop key w) = events w @ [SetItem key (JSON_stringify v)] \<and>
            list_all is_setItem [SetItem key (JSON_stringify v)]"
    using True v by (simp add: apply_slot_def)
  then show ?thesis by blast
next
  case False
  have "\<forall>w. localStorage (apply_slot dat prop key w) = localStorage w ++ Map.empty \<and>
            events (apply_slot dat prop key w) = events w @ [] \<and>
            list_all is_setItem []"
    using False by (cases "map_of dat prop") (simp_all add: apply_slot_def)
  then show ?thesis by blast
qed

lemma setItems_no_calls:
  "list_all is_setItem evs \<Longrightarrow>
     filter is_upsert evs = [] \<and> filter is_select evs = [] \<and> filter is_reload_timer evs = []"
  by (induction evs) (auto elim: is_setItem.elims)

lemma applyDataToLocalStorage_effect:
  "\<exists>m evs. \<forall>w. localStorage (applyDataToLocalStorage dat w) = localStorage w ++ m \<and>
                 events (applyDataToLocalStorage dat w) =
                   events w @ evs @ [Alert SettingsSynced, SetTimeoutReload 250] \<and>
                 list_all is_setItem evs"
proof -
  obtain m1 e1 where s1: "\<And>w. localStorage (apply_slot dat ''folders'' ''poker-ranges-folders'' w) = localStorage w ++ m1"
      "\<And>w. events (apply_slot dat ''folders'' ''poker-ranges-folders'' w) = events w @ e1" "list_all is_setItem e1"
    using apply_slot_effect [of dat "''folders''" "''poker-ranges-folders''"] by blast
  obtain m2 e2 where s2: "\<And>w. localStorage (apply_slot dat ''actionButtons'' ''poker-ranges-actions'' w) = localStorage w ++ m2"
      "\<And>w. events (apply_slot dat ''actionButtons'' ''poker-ranges-actions'' w) = events w @ e2" "list_all is_setItem e2"
    using apply_slot_effect [of dat "''actionButtons''" "''poker-ranges-actions''"] by blast
  obtain m3 e3 where s3: "\<And>w. localStorage (apply_slot dat ''trainings'' ''training-sessions'' w) = localStorage w ++ m3"
      "\<And>w. events (apply_slot dat ''trainings'' ''training-sessions'' w) = events w @ e3" "list_all is_setItem e3"
    using apply_slot_effect [of dat "''trainings''" "''training-sessions''"] by blast
  obtain m4 e4 where s4: "\<And>w. localStorage (apply_slot dat ''statistics'' ''training-statistics'' w) = localStorage w ++ m4"
      "\<And>w. events (apply_slot dat ''statistics'' ''training-statistics'' w) = events w @ e4" "list_all is_setItem e4"
    using apply_slot_effect [of dat "''statistics''" "''training-statistics''"] by blast
  obtain m5 e5 where s5: "\<And>w. localStorage (apply_slot dat ''charts'' ''userCharts'' w) = localStorage w ++ m5"
      "\<And>w. events (apply_slot dat ''charts'' ''userCharts'' w) = events w @ e5" "list_all is_setItem e5"
    using apply_slot_effect [of dat "''charts''" "''userCharts''"] by blast
  have "\<forall>w. localStorage (applyDataToLocalStorage dat w) = localStorage w ++ (m1 ++ m2 ++ m3 ++ m4 ++ m5) \<and>
            events (applyDataToLocalStorage dat w) =
              events w @ (e1 @ e2 @ e3 @ e4 @ e5) @ [Alert SettingsSynced, SetTimeoutReload 250] \<and>
            list_all is_setItem (e1 @ e2 @ e3 @ e4 @ e5)"
    unfolding applyDataToLocalStorage_def
    by (simp add: s1 s2 s3 s4 s5)
  then show ?thesis by blast
qed

text \<open>
  C10: the local writes \<open>m\<close> and the calls \<open>evs\<close> of an import that finds the row
  \<open>dat\<close> are fixed by \<open>dat\<close> alone. Whatever the state was before, and so for any
  two local stores, the import returns, the storage after it is the storage before
  with \<open>m\<close> written over it, the events are the query, the same \<^verbatim>\<open>setItem\<close> calls, the
  same alert and the same reload timer; none of them is an upsert, and the remote side
  is unchanged. The local bundle is not read and not sent.
\<close>

theorem importUserSettings_ignores_local:
  "\<exists>m evs. \<forall>w u.
      current_user w = Some u \<and> fetchByUser w (uid u) = \<lparr>data = Some dat, error = None\<rparr> \<longrightarrow>
        fst (importUserSettings w) = None \<and>
        localStorage (snd (importUserSettings w)) = localStorage w ++ m \<and>
        events (snd (importUserSettings w)) =
          events w @
          [ConsoleLog ''Importing settings from Supabase for user:'',
           SelectSingle ''user_settings'' ''user_id'' (uid u),
           ConsoleLog ''Settings found in Supabase, applying to local storage.''] @
          evs @ [Alert SettingsSynced, SetTimeoutReload 250] \<and>
        list_all is_setItem evs \<and>
        filter is_upsert (events (snd (importUserSettings w))) = filter is_upsert (events w) \<and>
        db (snd (importUserSettings w)) = db w \<and>
        reload_timers (snd (importUserSettings w)) = reload_timers w @ [250]"
proof -
  obtain m evs where eff:
      "\<And>w. localStorage (applyDataToLocalStorage (rest_settings dat) w) = localStorage w ++ m"
      "\<And>w. events (applyDataToLocalStorage (rest_settings dat) w) =
             events w @ evs @ [Alert SettingsSynced, SetTimeoutReload 250]"
      "list_all is_setItem evs"
    using applyDataToLocalStorage_effect [of "rest_settings dat"] by blast
  have quiet: "filter is_upsert evs = []"
    using setItems_no_calls [OF eff(3)] by simp
  have "\<forall>w u.
      current_user w = Some u \<and> fetchByUser w (uid u) = \<lparr>data = Some dat, error = None\<rparr> \<longrightarrow>
        fst (importUserSettings w) = None \<and>
        localStorage (snd (importUserSettings w)) = localStorage w ++ m \<and>
        events (snd (importUserSettings w)) =
          events w @
          [ConsoleLog ''Importing settings from Supabase for user:'',
           SelectSingle ''user_settings'' ''user_id'' (uid u),
           ConsoleLog ''Settings found in Supabase, applying to local storage.''] @
          evs @ [Alert SettingsSynced, SetTimeoutReload 250] \<and>
        list_all is_setItem evs \<and>
        filter is_upsert (events (snd (importUserSettings w))) = filter is_upsert (events w) \<and>
        db (snd (importUserSettings w)) = db w \<and>
        reload_timers (snd (importUserSettings w)) = reload_timers w @ [250]"
    by (simp add: importUserSettings_found eff quiet)
  then show ?thesis by blast
qed

theorem importUserSettings_ignores_local_witness:
  "events (snd (importUserSettings (signed_in Map.empty [charts_row]))) =
   events (snd (importUserSettings
      (signed_in [''poker-ranges-folders'' \<mapsto> ''[{\"id\":1}]''] [charts_row]))) \<and>
   db (snd (importUserSettings
      (signed_in [''poker-ranges-folders'' \<mapsto> ''[{\"id\":1}]''] [charts_row]))) =
   db (signed_in [''poker-ranges-folders'' \<mapsto> ''[{\"id\":1}]''] [charts_row])"
proof -
  let ?w1 = "signed_in Map.empty [charts_row]"
  let ?w2 = "signed_in [''poker-ranges-folders'' \<mapsto> ''[{\"id\":1}]''] [charts_row]"
  have h1: "current_user ?w1 = Some alice \<and>
      fetchByUser ?w1 (uid alice) = \<lparr>data = Some charts_row, error = None\<rparr>"
    by (simp add: fetchByUser_signed_in_row)
  have h2: "current_user ?w2 = Some alice \<and>
      fetchByUser ?w2 (uid alice) = \<lparr>data = Some charts_row, error = None\<rparr>"
    by (simp add: fetchByUser_signed_in_row)
  from importUserSettings_ignores_local [of charts_row] obtain m evs where
    both: "\<And>w u. current_user w = Some u \<and>
              fetchByUser w (uid u) = \<lparr>data = Some charts_row, error = None\<rparr> \<Longrightarrow>
            events (snd (importUserSettings w)) =
              events w @
              [ConsoleLog ''Importing settings from Supabase for user:'',
               SelectSingle ''user_settings'' ''user_id'' (uid u),
               ConsoleLog ''Settings found in Supabase, applying to local storage.''] @
              evs @ [Alert SettingsSynced, SetTimeoutReload 250] \<and>
            db (snd (importUserSettings w)) = db w"
    by blast
  from both [OF h1] both [OF h2] show ?thesis by simp
qed

subsection \<open>The import when the query fails\<close>

text \<open>
  C5: when a user is signed in and the query fails with an error whose code is not
  PGRST116, \<^verbatim>\<open>importUserSettings\<close> logs the error, shows it in an alert and returns.
  Nothing but the record of events changes: no upsert, no write to the local storage.
\<close>

theorem importUserSettings_fetch_error:
  assumes "current_user w = Some u"
    and "error (fetchByUser w (uid u)) = Some e"
    and "code e \<noteq> ''PGRST116''"
  shows "importUserSettings w =
           (None, w\<lparr>events := events w @
                     [ConsoleLog ''Importing settings from Supabase for user:'',
                      SelectSingle ''user_settings'' ''user_id'' (uid u),
                      ConsoleError ''Error importing settings:'',
                      Alert (LoadFailed (message e))]\<rparr>)"
proof -
  have "importUserSettings w =
      (None, emit (Alert (LoadFailed (message e)))
               (emit (ConsoleError ''Error importing settings:'')
                 (emit (SelectSingle ''user_settings'' ''user_id'' (uid u))
                   (emit (ConsoleLog ''Importing settings from Supabase for user:'') w))))"
    using assms by (simp add: importUserSettings_def select_single_split fatal_error_def)
  then show ?thesis by (simp add: emit_def)
qed

theorem importUserSettings_fetch_error_witness:
  "importUserSettings
     ((signed_in Map.empty [charts_row])
        \<lparr>db := (db (signed_in Map.empty [charts_row]))
                 \<lparr>select_fault := Some \<lparr>code = ''503'', message = ''Failed to fetch''\<rparr>\<rparr>\<rparr>) =
   (None,
    (signed_in Map.empty [charts_row])
       \<lparr>db := (db (signed_in Map.empty [charts_row]))
                \<lparr>select_fault := Some \<lparr>code = ''503'', message = ''Failed to fetch''\<rparr>\<rparr>,
        events := [ConsoleLog ''Importing settings from Supabase for user:'',
                   SelectSingle ''user_settings'' ''user_id'' ''u1'',
                   ConsoleError ''Error importing settings:'',
                   Alert (LoadFailed ''Failed to fetch'')]\<rparr>)"
proof -
  let ?w = "(signed_in Map.empty [charts_row])
        \<lparr>db := (db (signed_in Map.empty [charts_row]))
                 \<lparr>select_fault := Some \<lparr>code = ''503'', message = ''Failed to fetch''\<rparr>\<rparr>\<rparr>"
  have user: "current_user ?w = Some alice" by simp
  have err: "error (fetchByUser ?w (uid alice)) = Some \<lparr>code = ''503'', message = ''Failed to fetch''\<rparr>"
    by (simp add: fetchByUser_def select_single_def single_row_def)
  have other: "code \<lparr>code = ''503'', message = ''Failed to fetch''\<rparr> \<noteq> ''PGRST116''"
    by simp
  from importUserSettings_fetch_error [OF user err other]
  show ?thesis by (simp add: alice_def)
qed

subsection \<open>The import when there is nothing to do\<close>

text \<open>
  C6: with no user signed in \<^verbatim>\<open>importUserSettings\<close> only writes a line to the console:
  no request is made. With a user signed in, no row found (PGRST116) and five empty
  sequences in the local storage, it makes the one query and writes to the console.
  In both cases the local storage and the remote side are unchanged.
\<close>

theorem importUserSettings_noop:
  "(current_user w = None \<longrightarrow>
      importUserSettings w =
        (None, w\<lparr>events := events w @
                  [ConsoleLog ''User not logged in, cannot import settings.'']\<rparr>)) \<and>
   (current_user w = Some u \<and>
    data (fetchByUser w (uid u)) = None \<and>
    map_option code (error (fetchByUser w (uid u))) = Some ''PGRST116'' \<and>
    gatherDataFromLocalStorage (localStorage w) =
      Inr \<lparr>folders = JArr [], actionButtons = JArr [], trainings = JArr [],
           statistics = JArr [], charts = JArr []\<rparr> \<longrightarrow>
      importUserSettings w =
        (None, w\<lparr>events := events w @
                  [ConsoleLog ''Importing settings from Supabase for user:'',
                   SelectSingle ''user_settings'' ''user_id'' (uid u),
                   ConsoleLog ''No settings found in Supabase for this user. Checking for local data to perform initial sync.'',
                   ConsoleLog ''No remote or local settings found. Fresh start.'']\<rparr>))"
proof (intro conjI impI)
  assume "current_user w = None"
  then show "importUserSettings w =
        (None, w\<lparr>events := events w @
                  [ConsoleLog ''User not logged in, cannot import settings.'']\<rparr>)"
    by (simp add: importUserSettings_def emit_def)
next
  assume h: "current_user w = Some u \<and>
    data (fetchByUser w (uid u)) = None \<and>
    map_option code (error (fetchByUser w (uid u))) = Some ''PGRST116'' \<and>
    gatherDataFromLocalStorage (localStorage w) =
      Inr \<lparr>folders = JArr [], actionButtons = JArr [], trainings = JArr [],
           statistics = JArr [], charts = JArr []\<rparr>"
  then have "importUserSettings w =
      (None, emit (ConsoleLog ''No remote or local settings found. Fresh start.'')
               (emit (ConsoleLog ''No settings found in Supabase for this user. Checking for local data to perform initial sync.'')
                 (emit (SelectSingle ''user_settings'' ''user_id'' (uid u))
                   (emit (ConsoleLog ''Importing settings from Supabase for user:'') w))))"
    by (auto simp: importUserSettings_def select_single_split fatal_error_def Let_def
          Object_values_def)
  then show "importUserSettings w =
        (None, w\<lparr>events := events w @
                  [ConsoleLog ''Importing settings from Supabase for user:'',
                   SelectSingle ''user_settings'' ''user_id'' (uid u),
                   ConsoleLog ''No settings found in Supabase for this user. Checking for local data to perform initial sync.'',
                   ConsoleLog ''No remote or local settings found. Fresh start.'']\<rparr>)"
    by (simp add: emit_def)
qed

theorem importUserSettings_noop_witness:
  "events (snd (importUserSettings ((signed_in Map.empty [])\<lparr>current_user := None\<rparr>))) =
     [ConsoleLog ''User not logged in, cannot import settings.''] \<and>
   events (snd (importUserSettings (signed_in Map.empty []))) =
     [ConsoleLog ''Importing settings from Supabase for user:'',
      SelectSingle ''user_settings'' ''user_id'' ''u1'',
      ConsoleLog ''No settings found in Supabase for this user. Checking for local data to perform initial sync.'',
      ConsoleLog ''No remote or local settings found. Fresh start.''] \<and>
   db (snd (importUserSettings (signed_in Map.empty []))) = db (signed_in Map.empty []) \<and>
   localStorage (snd (importUserSettings (signed_in Map.empty []))) = Map.empty"
proof -
  have out: "current_user ((signed_in Map.empty [])\<lparr>current_user := None\<rparr>) = None"
    by simp
  have inside: "current_user (signed_in Map.empty []) = Some alice \<and>
    data (fetchByUser (signed_in Map.empty []) (uid alice)) = None \<and>
    map_option code (error (fetchByUser (signed_in Map.empty []) (uid alice))) = Some ''PGRST116'' \<and>
    gatherDataFromLocalStorage (localStorage (signed_in Map.empty [])) =
      Inr \<lparr>folders = JArr [], actionButtons = JArr [], trainings = JArr [],
           statistics = JArr [], charts = JArr []\<rparr>"
    by (simp add: fetchByUser_signed_in_empty gather_empty_store)
  from importUserSettings_noop [of "(signed_in Map.empty [])\<lparr>current_user := None\<rparr>" alice]
       importUserSettings_noop [of "signed_in Map.empty []" alice] out inside
  show ?thesis by (simp add: alice_def)
qed

subsection \<open>The first upload\<close>





subsection \<open>The manual save\<close>




subsection \<open>Reloads\<close>

lemma page_load_found:
  assumes "current_user w = Some u"
    and "fetchByUser w (uid u) = \<lparr>data = Some dat, error = None\<rparr>"
  shows "reload_timers (page_load w) = [250]"
    and "db (page_load w) = db w"
    and "current_user (page_load w) = Some u"
    and "reloads (page_load w) = reloads w"
proof -
  let ?w1 = "w\<lparr>reload_timers := [],
          react := \<lparr>user = None, session = None, profile = None, loading = True\<rparr>\<rparr>
        \<lparr>react := \<lparr>user = None, session = None, profile = None, loading = True\<rparr>
            \<lparr>session := Some (Session u), user := Some u\<rparr>\<rparr>"
  obtain r w2 where sel: "select_single ''profiles'' ''id'' (uid u) ?w1 = (r, w2)"
    by (cases "select_single ''profiles'' ''id'' (uid u) ?w1")
  have w2: "w2 = emit (SelectSingle ''profiles'' ''id'' (uid u)) ?w1"
    using sel by (simp add: select_single_def)
  define w3 where "w3 = (case fatal_error r of
                               Some e \<Rightarrow> (emit (ConsoleError ''Error fetching profile:'') w2)
                                           \<lparr>react := (react w2)\<lparr>profile := None\<rparr>\<rparr>
                             | None \<Rightarrow> w2\<lparr>react := (react w2)\<lparr>profile := data r\<rparr>\<rparr>)"
  have w3: "current_user w3 = Some u" "db w3 = db w" "reload_timers w3 = []"
           "reloads w3 = reloads w"
    using assms(1) by (simp_all add: w3_def w2 reloads_def split: option.splits)
  have f3: "fetchByUser w3 (uid u) = \<lparr>data = Some dat, error = None\<rparr>"
    using fetchByUser_db [OF w3(2)] assms(2) by simp
  have pl: "page_load w = (snd (importUserSettings w3))
              \<lparr>react := (react (snd (importUserSettings w3)))\<lparr>loading := False\<rparr>\<rparr>"
    using assms(1) sel by (simp add: page_load_def onAuthStateChange_def Let_def w3_def)
  have run: "snd (importUserSettings w3) = applyDataToLocalStorage (rest_settings dat)
                    (emit (ConsoleLog ''Settings found in Supabase, applying to local storage.'')
                      (emit (SelectSingle ''user_settings'' ''user_id'' (uid u))
                        (emit (ConsoleLog ''Importing settings from Supabase for user:'') w3)))"
    by (simp add: importUserSettings_found [OF w3(1) f3])
  show "reload_timers (page_load w) = [250]" by (simp add: pl run w3)
  show "db (page_load w) = db w" by (simp add: pl run w3)
  show "current_user (page_load w) = Some u" by (simp add: pl run w3)
  have "filter (\<lambda>e. e = Reloaded) (events (snd (importUserSettings w3))) =
        filter (\<lambda>e. e = Reloaded) (events w3)"
    unfolding run by (simp add: applyDataToLocalStorage_events)
  then show "reloads (page_load w) = reloads w"
    using w3(4) by (simp add: pl reloads_def)
qed

lemma page_loads_found:
  assumes "current_user w = Some u"
    and "fetchByUser w (uid u) = \<lparr>data = Some dat, error = None\<rparr>"
  shows "reloads (page_loads n w) = reloads w + n"
  using assms
proof (induction n arbitrary: w)
  case 0
  then show ?case by simp
next
  case (Suc n)
  let ?w' = "emit Reloaded (page_load w)"
  have user: "current_user ?w' = Some u"
    using page_load_found(3) [OF Suc.prems] by simp
  have same: "db ?w' = db w"
    using page_load_found(2) [OF Suc.prems] by simp
  have fetch: "fetchByUser ?w' (uid u) = \<lparr>data = Some dat, error = None\<rparr>"
    using fetchByUser_db [OF same, of "uid u"] Suc.prems(2) by simp
  have "reloads (page_loads n ?w') = reloads ?w' + n"
    by (rule Suc.IH [OF user fetch])
  then show ?case
    using page_load_found(1,4) [OF Suc.prems] by (simp add: Let_def)
qed

text \<open>
  C2 fails on the code. The callback starts the import on every notification that
  carries a session, and a page load delivers one; with a row for the user each import
  schedules a reload, so \<open>n\<close> page loads in a row make \<open>n\<close> reloads, for every \<open>n\<close>.
\<close>

theorem reload_loop_unbounded:
  "\<not> (\<exists>N. \<forall>n. reloads (page_loads n (signed_in Map.empty [charts_row])) \<le> N)"
proof
  assume "\<exists>N. \<forall>n. reloads (page_loads n (signed_in Map.empty [charts_row])) \<le> N"
  then obtain N where bound: "\<And>n. reloads (page_loads n (signed_in Map.empty [charts_row])) \<le> N"
    by blast
  have user: "current_user (signed_in Map.empty [charts_row]) = Some alice"
    by (simp add: signed_in_def)
  have fetch: "fetchByUser (signed_in Map.empty [charts_row]) (uid alice) =
      \<lparr>data = Some charts_row, error = None\<rparr>"
    by (simp add: signed_in_def fetchByUser_def select_single_def single_row_def table_rows_def
          charts_row_def alice_def)
  have "reloads (page_loads (Suc N) (signed_in Map.empty [charts_row])) =
        reloads (signed_in Map.empty [charts_row]) + Suc N"
    by (rule page_loads_found [OF user fetch])
  with bound [of "Suc N"] show False by simp
qed

subsection \<open>What an upsert stores\<close>

lemma upsert_rows_settings_payload:
  "upsert_fault b = None \<Longrightarrow>
   upsert_rows (settings_payload userId d now) b =
     (Some \<lparr>code = ''PGRST204'',
            message = ''Could not find the actionButtons column of user_settings''\<rparr>, b)"
  by (simp add: upsert_rows_def settings_payload_def user_settings_columns_def)

lemma upsert_rows_settings_payload_table:
  "snd (upsert_rows (settings_payload userId d now) b) = b \<and>
   fst (upsert_rows (settings_payload userId d now) b) \<noteq> None"
proof (cases "upsert_fault b")
  case None
  then show ?thesis by (simp add: upsert_rows_settings_payload)
next
  case (Some e)
  then show ?thesis by (simp add: upsert_rows_def)
qed

lemma upsert_settings_payload_db:
  "db (snd (upsert (settings_payload userId d now) w)) = db w"
proof (cases "upsert_rows (settings_payload userId d now) (db w)")
  case (Pair err b)
  with upsert_rows_settings_payload_table [of userId d now "db w"] have "b = db w"
    by simp
  with Pair show ?thesis by (simp add: upsert_def)
qed

lemma exportUserSettings_db: "db (snd (exportUserSettings w)) = db w"
proof (cases "current_user w")
  case None
  then show ?thesis by (simp add: exportUserSettings_def)
next
  case (Some u)
  show ?thesis
  proof (cases "gatherDataFromLocalStorage (localStorage w)")
    case (Inl e)
    with Some show ?thesis by (simp add: exportUserSettings_def)
  next
    case (Inr d)
    let ?w1 = "emit (ConsoleLog ''Uploading settings to Supabase for user:'') w"
    obtain err w2 where up: "upsert (settings_payload (uid u) d (clock w)) ?w1 = (err, w2)"
      by (cases "upsert (settings_payload (uid u) d (clock w)) ?w1")
    have "db w2 = db w"
      using upsert_settings_payload_db [of "uid u" d "clock w" ?w1] up by simp
    with Some Inr up show ?thesis
      by (cases err) (simp_all add: exportUserSettings_def)
  qed
qed

text \<open>
  With the column's name in the payload the table does what an upsert is for: after
  one upsert, and so after two, exactly one row has the user id, and it holds the
  slots of the last payload.
\<close>

lemma updated_row_column_payload:
  assumes "map fst row = user_settings_columns"
  shows "updated_row b (column_payload u d t) row = column_payload u d (server_now b)"
proof -
  from assms obtain v1 v2 v3 v4 v5 v6 v7 where
    "row = [(''user_id'', v1), (''folders'', v2), (''action_buttons'', v3), (''trainings'', v4),
            (''statistics'', v5), (''charts'', v6), (''updated_at'', v7)]"
    by (rule row_shape)
  then show ?thesis by (simp add: updated_row_def column_payload_def)
qed

lemma inserted_row_column_payload:
  "inserted_row b (column_payload u d t) = column_payload u d t"
  by (simp add: inserted_row_def column_payload_def user_settings_columns_def)

lemma has_user_id_column_payload [simp]: "has_user_id u (column_payload u d t)"
  by (simp add: has_user_id_def column_payload_def)

lemma column_payload_keys [simp]: "map fst (column_payload u d t) = user_settings_columns"
  by (simp add: column_payload_def user_settings_columns_def)

lemma upsert_rows_column_payload:
  assumes "upsert_fault b = None"
  shows "upsert_rows (column_payload u d t) b =
     (None,
      if list_ex (has_user_id u) (user_settings b)
      then b\<lparr>user_settings :=
               map (\<lambda>row. if has_user_id u row then updated_row b (column_payload u d t) row else row)
                 (user_settings b)\<rparr>
      else b\<lparr>user_settings := user_settings b @ [column_payload u d t]\<rparr>)"
proof -
  have keys: "filter (\<lambda>k. k \<notin> set user_settings_columns) (map fst (column_payload u d t)) = []"
    by simp
  have uid: "map_of (column_payload u d t) ''user_id'' = Some (JStr u)"
    by (simp add: column_payload_def)
  show ?thesis
    unfolding upsert_rows_def
    by (simp only: assms keys uid inserted_row_column_payload option.case list.case json.case
          if_distrib split: if_splits) simp
qed

lemma filter_replace:
  assumes "\<And>x. P x \<Longrightarrow> P r"
  shows "filter P (map (\<lambda>x. if P x then r else x) xs) = map (\<lambda>x. r) (filter P xs)"
  using assms by (induction xs) auto

lemma distinct_filter_key:
  assumes "distinct (map f xs)"
  shows "length (filter (\<lambda>x. f x = k) xs) \<le> 1"
  using assms
proof (induction xs)
  case Nil
  then show ?case by simp
next
  case (Cons x xs)
  show ?case
  proof (cases "f x = k")
    case True
    with Cons.prems have "filter (\<lambda>x. f x = k) xs = []"
      by (auto simp: filter_empty_conv) (metis imageI)
    with True show ?thesis by simp
  next
    case False
    with Cons show ?thesis by simp
  qed
qed

lemma upsert_column_payload_stores:
  assumes "upsert_fault b = None" and "table_ok (user_settings b)"
  shows "\<exists>ts. filter (has_user_id u)
               (user_settings (snd (upsert_rows (column_payload u d t) b))) =
             [column_payload u d ts]"
    and "table_ok (user_settings (snd (upsert_rows (column_payload u d t) b)))"
    and "upsert_fault (snd (upsert_rows (column_payload u d t) b)) = None"
proof -
  let ?rows = "user_settings b"
  let ?p = "column_payload u d t"
  let ?r = "column_payload u d (server_now b)"
  from assms(2) have shape: "\<And>row. row \<in> set ?rows \<Longrightarrow> map fst row = user_settings_columns"
    and dist: "distinct (map (\<lambda>row. map_of row ''user_id'') ?rows)"
    by (auto simp: table_ok_def list_all_iff)
  show "upsert_fault (snd (upsert_rows ?p b)) = None"
    using assms(1) by (simp add: upsert_rows_column_payload)
  show "\<exists>ts. filter (has_user_id u) (user_settings (snd (upsert_rows ?p b))) = [column_payload u d ts]"
  proof (cases "list_ex (has_user_id u) ?rows")
    case False
    then have "filter (has_user_id u) ?rows = []"
      by (auto simp: list_ex_iff filter_empty_conv)
    with False assms(1) have "filter (has_user_id u) (user_settings (snd (upsert_rows ?p b))) =
        [column_payload u d t]"
      by (simp add: upsert_rows_column_payload)
    then show ?thesis by blast
  next
    case True
    have new: "map (\<lambda>row. if has_user_id u row then updated_row b ?p row else row) ?rows =
               map (\<lambda>row. if has_user_id u row then ?r else row) ?rows"
      using shape by (auto simp: updated_row_column_payload)
    have "length (filter (has_user_id u) ?rows) \<le> 1"
      using distinct_filter_key [OF dist, of "Some (JStr u)"] by (simp add: has_user_id_def [abs_def])
    moreover from True have "filter (has_user_id u) ?rows \<noteq> []"
      by (auto simp: list_ex_iff filter_empty_conv)
    ultimately obtain old where "filter (has_user_id u) ?rows = [old]"
      by (cases "filter (has_user_id u) ?rows") auto
    then have "filter (has_user_id u) (map (\<lambda>row. if has_user_id u row then ?r else row) ?rows) = [?r]"
      by (simp add: filter_replace)
    with True assms(1)
    have "filter (has_user_id u) (user_settings (snd (upsert_rows ?p b))) = [?r]"
      by (simp add: upsert_rows_column_payload new)
    then show ?thesis by blast
  qed
  show "table_ok (user_settings (snd (upsert_rows ?p b)))"
  proof (cases "list_ex (has_user_id u) ?rows")
    case False
    then have "Some (JStr u) \<notin> set (map (\<lambda>row. map_of row ''user_id'') ?rows)"
      by (auto simp: list_ex_iff has_user_id_def)
    moreover have "map_of ?p ''user_id'' = Some (JStr u)"
      by (simp add: column_payload_def)
    ultimately show ?thesis
      using False assms table_ok_def
      by (simp add: upsert_rows_column_payload table_ok_def)
  next
    case True
    have new: "map (\<lambda>row. if has_user_id u row then updated_row b ?p row else row) ?rows =
               map (\<lambda>row. if has_user_id u row then ?r else row) ?rows"
      using shape by (auto simp: updated_row_column_payload)
    have same: "map (\<lambda>row. map_of row ''user_id'') (map (\<lambda>row. if has_user_id u row then ?r else row) ?rows) =
                map (\<lambda>row. map_of row ''user_id'') ?rows"
      by (auto simp: has_user_id_def column_payload_def)
    have shapes: "list_all (\<lambda>row. map fst row = user_settings_columns)
            (map (\<lambda>row. if has_user_id u row then ?r else row) ?rows)"
      using shape by (auto simp: list_all_iff)
    have keys: "distinct (map (\<lambda>row. map_of row ''user_id'')
            (map (\<lambda>row. if has_user_id u row then ?r else row) ?rows))"
      unfolding same by (rule dist)
    have rows: "user_settings (snd (upsert_rows ?p b)) =
            map (\<lambda>row. if has_user_id u row then ?r else row) ?rows"
      using True assms(1) by (simp add: upsert_rows_column_payload new)
    show ?thesis
      unfolding rows table_ok_def using shapes keys by (rule conjI)
  qed
qed

lemma upsert_column_payload_twice:
  assumes "upsert_fault b = None" and "table_ok (user_settings b)"
  shows "\<exists>ts. filter (has_user_id u)
               (user_settings (snd (upsert_rows (column_payload u d2 t2)
                                     (snd (upsert_rows (column_payload u d1 t1) b))))) =
             [column_payload u d2 ts]"
  using upsert_column_payload_stores [OF upsert_column_payload_stores(3,2) [OF assms]]
  by blast

text \<open>
  C9 fails on the code. The payload names the slot of the action buttons
  \<^verbatim>\<open>actionButtons\<close>; the column is \<^verbatim>\<open>action_buttons\<close>. The upsert is refused, so after two
  saves of the signed-in user the table has no row and the query finds none.
\<close>

theorem second_upsert_leaves_no_row:
  "user_settings
     (db (snd (exportUserSettings
       ((snd (exportUserSettings
           (signed_in [''poker-ranges-actions'' \<mapsto> ''[{\"id\":1}]''] [])))
        \<lparr>localStorage := [''poker-ranges-actions'' \<mapsto> ''[{\"id\":2}]'']\<rparr>)))) = [] \<and>
   fetchByUser
     (snd (exportUserSettings
       ((snd (exportUserSettings
           (signed_in [''poker-ranges-actions'' \<mapsto> ''[{\"id\":1}]''] [])))
        \<lparr>localStorage := [''poker-ranges-actions'' \<mapsto> ''[{\"id\":2}]'']\<rparr>))) ''u1'' =
     \<lparr>data = None,
      error = Some \<lparr>code = ''PGRST116'',
                    message = ''JSON object requested, multiple (or no) rows returned''\<rparr>\<rparr>"
proof -
  let ?w = "snd (exportUserSettings
       ((snd (exportUserSettings
           (signed_in [''poker-ranges-actions'' \<mapsto> ''[{\"id\":1}]''] [])))
        \<lparr>localStorage := [''poker-ranges-actions'' \<mapsto> ''[{\"id\":2}]'']\<rparr>))"
  have "db ?w = db (signed_in [''poker-ranges-actions'' \<mapsto> ''[{\"id\":1}]''] [])"
    by (simp add: exportUserSettings_db)
  then have d: "db ?w = \<lparr>user_settings = [], profiles = [], select_fault = None, upsert_fault = None,
            server_now = ''2024-05-01T10:00:00+00:00''\<rparr>"
    by (simp add: signed_in_def)
  show ?thesis
    by (simp add: d fetchByUser_def select_single_def single_row_def table_rows_def)
qed

end
